theory Spec2Isabelle
  imports Complex_Main "HOL-Library.Sublist" "HOL-Library.Multiset" "HOL-Library.Log_Nat"
begin

section \<open>Restaurant finder: multi-select filters\<close>

text \<open>
  \<^verbatim>\<open>toggleFilter(item, current, setFn)\<close> of the restaurant finder. The selection list
  is a JavaScript array of tag strings; \<^verbatim>\<open>includes\<close> is membership, \<^verbatim>\<open>filter\<close> keeps the
  elements different from the tag, and the spread appends the tag at the end. The function
  returns the value handed to the state setter.
\<close>

definition toggleFilter :: "string \<Rightarrow> string list \<Rightarrow> string list" where
  "toggleFilter item current =
     (if item \<in> set current
      then filter (\<lambda>i. i \<noteq> item) current
      else current @ [item])"

text \<open>
  A user session is a sequence of clicks on filter chips; each click toggles one tag on the
  list that the previous click left behind. The dietary and the amenity list both start
  empty.
\<close>

definition toggle_all :: "string list \<Rightarrow> string list \<Rightarrow> string list" where
  "toggle_all items start = foldl (\<lambda>current item. toggleFilter item current) start items"

section \<open>AI integration service: the grounded restaurant search\<close>

text \<open>
  JavaScript strings are modelled as \<^typ>\<open>string\<close>. \<^verbatim>\<open>DietaryRestriction\<close> and
  \<^verbatim>\<open>Amenity\<close> are unions of string literals, so a tag is a string. A JavaScript number is
  modelled by the rational it denotes (every finite double is a rational).
\<close>

type_synonym DietaryRestriction = string
type_synonym Amenity = string

record Coordinates =
  latitude :: rat
  longitude :: rat

text \<open>\<^verbatim>\<open>Array.prototype.join(sep)\<close> on an array of strings.\<close>

fun join :: "string \<Rightarrow> string list \<Rightarrow> string" where
  "join sep [] = []"
| "join sep [x] = x"
| "join sep (x # y # ys) = x @ sep @ join sep (y # ys)"

definition newline :: char where
  "newline = CHR 0x0A"

text \<open>
  The local variable \<^verbatim>\<open>filterText\<close> of \<^verbatim>\<open>findRestaurants\<close>: it starts empty and each of the
  three \<^verbatim>\<open>if\<close> statements appends one sentence. The optional parameter \<^verbatim>\<open>dishes\<close> is
  \<open>None\<close> when it is not passed; the test \<^verbatim>\<open>if (dishes)\<close> is false for \<^verbatim>\<open>undefined\<close> and for
  the empty string.
\<close>

definition filterText :: "DietaryRestriction list \<Rightarrow> Amenity list \<Rightarrow> string option \<Rightarrow> string" where
  "filterText dietary amenities dishes =
     (let ft0 = [];
          ft1 = (if length dietary > 0
                 then ft0 @ ''The user specifically requires these dietary options: ''
                          @ join '', '' dietary @ ''. ''
                 else ft0);
          ft2 = (if length amenities > 0
                 then ft1 @ ''The user specifically requires these amenities: ''
                          @ join '', '' amenities @ ''. ''
                 else ft1);
          ft3 = (case dishes of
                   None \<Rightarrow> ft2
                 | Some d \<Rightarrow>
                     if d \<noteq> []
                     then ft2 @ ''The user is interested in these specific dishes: '' @ d @ ''. ''
                     else ft2)
      in ft3)"

text \<open>The template literal bound to \<^verbatim>\<open>prompt\<close>, line breaks and indentation included.\<close>

definition prompt ::
  "string \<Rightarrow> string \<Rightarrow> DietaryRestriction list \<Rightarrow> Amenity list \<Rightarrow> string option \<Rightarrow> string" where
  "prompt cuisine price dietary amenities dishes =
     ''Find top-rated '' @ (if cuisine = ''Any Cuisine'' then [] else cuisine)
     @ '' restaurants near me that are in the ''
     @ (if price = ''Any Price'' then ''any'' else price)
     @ '' price range. '' @ [newline]
     @ ''  '' @ filterText dietary amenities dishes @ [newline]
     @ ''  Provide a helpful summary of the top recommendations, mentioning their ratings, ''
     @ ''specific matches for the user's requirements, and what they are known for.'' @ [newline]
     @ ''  Do not invent places. Only use the Google Maps tool to find real places.''"

text \<open>The members of the enumerations \<^verbatim>\<open>CuisineType\<close> and \<^verbatim>\<open>PriceRange\<close> other than the
  two sentinels.\<close>

definition cuisine_names :: "string list" where
  "cuisine_names = [''Italian'', ''Mexican'', ''Chinese'', ''Japanese'', ''Indian'',
                    ''American'', ''French'', ''Thai'', ''Mediterranean'', ''Vegan'']"

definition price_tiers :: "string list" where
  "price_tiers = [''$'', ''$$'', ''$$$'', ''$$$$'']"


text \<open>
  The shapes of \<^verbatim>\<open>types.ts\<close>. An optional field is an \<open>option\<close>. Some field names are
  taken or would be ambiguous, so \<^verbatim>\<open>text\<close> is written \<open>text_field\<close> in the result and
  \<open>response_text\<close> in the provider's response, the \<^verbatim>\<open>content\<close> of a review snippet
  \<open>snippet_content\<close>, the chunk list inside the provider's grounding metadata
  \<open>metadataChunks\<close>, and the \<^verbatim>\<open>id\<close> of a review and of a chat message \<open>review_id\<close> and
  \<open>msg_id\<close>.
\<close>

record ReviewSnippet =
  snippet_content :: string

record PlaceAnswerSources =
  reviewSnippets :: "ReviewSnippet list option"

record MapsPlace =
  uri :: string
  title :: string
  placeId :: "string option"
  placeAnswerSources :: "PlaceAnswerSources option"

record GroundingChunk =
  maps :: "MapsPlace option"

record RestaurantResult =
  text_field :: string
  groundingChunks :: "GroundingChunk list"

text \<open>
  The part of the provider's \<^verbatim>\<open>GenerateContentResponse\<close> that \<^verbatim>\<open>findRestaurants\<close> reads:
  the text accessor, which may be undefined, and the optional path
  \<^verbatim>\<open>candidates?.[0]?.groundingMetadata?.groundingChunks\<close>.
\<close>

record GroundingMetadata =
  metadataChunks :: "GroundingChunk list option"

record Candidate =
  groundingMetadata :: "GroundingMetadata option"

record GenerateContentResponse =
  response_text :: "string option"
  candidates :: "Candidate list option"

text \<open>
  The argument of \<^verbatim>\<open>ai.models.generateContent\<close>: model name, prompt and the coordinates
  of the retrieval configuration (the tool list is the constant \<^verbatim>\<open>[{ googleMaps: {} }]\<close>).
\<close>

record GenerateContentRequest =
  model :: string
  contents :: string
  latLng :: Coordinates

datatype ProviderError = ProviderError string

type_synonym Provider = "GenerateContentRequest \<Rightarrow> ProviderError + GenerateContentResponse"

definition search_request ::
  "Coordinates \<Rightarrow> string \<Rightarrow> string \<Rightarrow> DietaryRestriction list \<Rightarrow> Amenity list \<Rightarrow> string option
     \<Rightarrow> GenerateContentRequest" where
  "search_request coords cuisine price dietary amenities dishes =
     \<lparr>model = ''gemini-2.5-flash'',
      contents = prompt cuisine price dietary amenities dishes,
      latLng = \<lparr>latitude = latitude coords, longitude = longitude coords\<rparr>\<rparr>"

text \<open>
  \<^verbatim>\<open>response.text || "No details found."\<close>: the fallback is taken when the text is undefined
  or the empty string.
\<close>

definition text_or_fallback :: "string option \<Rightarrow> string" where
  "text_or_fallback t =
     (case t of
        None \<Rightarrow> ''No details found.''
      | Some s \<Rightarrow> if s \<noteq> [] then s else ''No details found.'')"

text \<open>
  \<^verbatim>\<open>response.candidates?.[0]?.groundingMetadata?.groundingChunks || []\<close>: every step of the
  optional chain yields undefined when its receiver is undefined, index 0 of an empty array
  is undefined, and an array (also the empty one) is truthy.
\<close>

definition extract_chunks :: "GenerateContentResponse \<Rightarrow> GroundingChunk list" where
  "extract_chunks response =
     (case candidates response of
        None \<Rightarrow> []
      | Some cs \<Rightarrow>
          (case cs of
             [] \<Rightarrow> []
           | c # _ \<Rightarrow>
               (case groundingMetadata c of
                  None \<Rightarrow> []
                | Some gm \<Rightarrow>
                    (case metadataChunks gm of
                       None \<Rightarrow> []
                     | Some chunks \<Rightarrow> chunks))))"

text \<open>
  \<^verbatim>\<open>findRestaurants\<close>. It performs exactly one provider call; the model returns the list
  of requests it sent together with its outcome. A failure of the provider is rethrown
  unchanged (\<open>Inl\<close>).
\<close>

definition findRestaurants ::
  "Provider \<Rightarrow> Coordinates \<Rightarrow> string \<Rightarrow> string \<Rightarrow> DietaryRestriction list \<Rightarrow> Amenity list
     \<Rightarrow> string option \<Rightarrow> GenerateContentRequest list \<times> (ProviderError + RestaurantResult)" where
  "findRestaurants provider coords cuisine price dietary amenities dishes =
     (let request = search_request coords cuisine price dietary amenities dishes
      in ([request],
          (case provider request of
             Inl err \<Rightarrow> Inl err
           | Inr response \<Rightarrow>
               Inr \<lparr>text_field = text_or_fallback (response_text response),
                    groundingChunks = extract_chunks response\<rparr>)))"


section \<open>Restaurant finder: state, location and search\<close>

datatype LocationStatus = Idle | Loading | Success | Error

record Review =
  review_id :: string
  restaurantTitle :: string
  rating :: rat
  comment :: string
  timestamp :: rat

text \<open>The React state of the component that the operations below read or write.\<close>

record FinderState =
  location :: "Coordinates option"
  locationStatus :: LocationStatus
  cuisine :: string
  price :: string
  dietary :: "DietaryRestriction list"
  amenities :: "Amenity list"
  customDish :: string
  isSearching :: bool
  result :: "RestaurantResult option"
  error :: "string option"
  reviews :: "Review list"

text \<open>
  An operation of the component is modelled by the sequence of effects it performs, in
  program order: each call of a state setter, the call of the device's
  \<^verbatim>\<open>getCurrentPosition\<close> and each request sent to the provider. The state after the
  operation is obtained by applying the writes one after the other. Every write is
  recorded, in the order of the calls; how the framework groups writes into renders is not
  part of the component's code.
\<close>

datatype Effect =
    SetLocation Coordinates
  | SetLocationStatus LocationStatus
  | SetError "string option"
  | SetIsSearching bool
  | SetResult "RestaurantResult option"
  | GetCurrentPosition
  | GenerateContent GenerateContentRequest

fun apply_effect :: "Effect \<Rightarrow> FinderState \<Rightarrow> FinderState" where
  "apply_effect (SetLocation c) st = st\<lparr>location := Some c\<rparr>"
| "apply_effect (SetLocationStatus s) st = st\<lparr>locationStatus := s\<rparr>"
| "apply_effect (SetError e) st = st\<lparr>error := e\<rparr>"
| "apply_effect (SetIsSearching b) st = st\<lparr>isSearching := b\<rparr>"
| "apply_effect (SetResult r) st = st\<lparr>result := r\<rparr>"
| "apply_effect GetCurrentPosition st = st"
| "apply_effect (GenerateContent request) st = st"

text \<open>The state after all effects, and the list of states the component passes through
  (the starting state first).\<close>

fun run :: "Effect list \<Rightarrow> FinderState \<Rightarrow> FinderState" where
  "run [] st = st"
| "run (e # es) st = run es (apply_effect e st)"




fun service_calls :: "Effect list \<Rightarrow> GenerateContentRequest list" where
  "service_calls [] = []"
| "service_calls (GenerateContent request # es) = request # service_calls es"
| "service_calls (_ # es) = service_calls es"



text \<open>
  \<^verbatim>\<open>handleSearch\<close> reads the state of the render in which it was created. Without a
  location it only sets the error message and returns. Otherwise it calls
  \<^verbatim>\<open>findRestaurants\<close> with \<^verbatim>\<open>customDish\<close> as the dish parameter; the \<^verbatim>\<open>finally\<close> block
  clears the searching flag on both paths.
\<close>

definition handleSearch :: "Provider \<Rightarrow> FinderState \<Rightarrow> Effect list" where
  "handleSearch provider st =
     (case location st of
        None \<Rightarrow> [SetError (Some ''Please enable location services to find restaurants nearby.'')]
      | Some loc \<Rightarrow>
          (let (requests, outcome) =
                 findRestaurants provider loc (cuisine st) (price st) (dietary st) (amenities st)
                   (Some (customDish st))
           in [SetIsSearching True, SetError None, SetResult None]
              @ map GenerateContent requests
              @ (case outcome of
                   Inr data \<Rightarrow> [SetResult (Some data)]
                 | Inl err \<Rightarrow>
                     [SetError (Some ''Failed to fetch recommendations. Please try again later.'')])
              @ [SetIsSearching False]))"


text \<open>The state of the component when it is mounted with no stored reviews: the
  arguments of its \<^verbatim>\<open>useState\<close> calls.\<close>

definition initial_state :: FinderState where
  "initial_state =
     \<lparr>location = None, locationStatus = Idle, cuisine = ''Any Cuisine'', price = ''Any Price'',
      dietary = [], amenities = [], customDish = [], isSearching = False, result = None,
      error = None, reviews = []\<rparr>"


section \<open>Chat assistant: sending a message\<close>

datatype Role = User | Model

record ChatMessage =
  msg_id :: string
  role :: Role
  content :: string
  isStreaming :: "bool option"

record ChatState =
  isOpen :: bool
  input :: string
  messages :: "ChatMessage list"
  isLoading :: bool

definition initial_chat :: ChatState where
  "initial_chat =
     \<lparr>isOpen = False,
      input = [],
      messages =
        [\<lparr>msg_id = ''welcome'', role = Model,
          content = ''Hello! I am your AI food assistant. Ask me anything about cuisines, ingredients, or cooking tips.'',
          isStreaming = None\<rparr>],
      isLoading = False\<rparr>"

text \<open>
  \<^verbatim>\<open>String.prototype.trim\<close>, for strings whose characters are code units below 256: the
  white space and line terminator characters in that range are U+0009 to U+000D, U+0020
  and U+00A0.
\<close>

definition is_space :: "char \<Rightarrow> bool" where
  "is_space ch = (of_char ch \<in> {9, 10, 11, 12, 13, 32, 160 :: nat})"

definition trim :: "string \<Rightarrow> string" where
  "trim s = rev (dropWhile is_space (rev (dropWhile is_space s)))"

text \<open>\<^verbatim>\<open>Number.prototype.toString\<close> on a non-negative integer such as a reading of
  \<^verbatim>\<open>Date.now()\<close>: its decimal digits.\<close>

definition digit_char :: "nat \<Rightarrow> char" where
  "digit_char d = ''0123456789'' ! (d mod 10)"

fun decimal :: "nat \<Rightarrow> string" where
  "decimal n = (if n < 10 then [digit_char n] else decimal (n div 10) @ [digit_char (n mod 10)])"

declare decimal.simps [simp del]

text \<open>
  What \<^verbatim>\<open>sendMessageStream\<close> gives to \<^verbatim>\<open>handleSend\<close>: the call itself fails, or it
  yields a stream. A stream is the finite list of its chunks, each with the value of its
  \<^verbatim>\<open>text\<close> accessor (possibly undefined), and the way the iteration ends: exhausted, or
  with an exception raised after the last chunk.
\<close>

datatype StreamEnd = Completed | Raised

datatype SendOutcome = InitiationFailed | Stream "string option list" StreamEnd

text \<open>The two updater functions that \<^verbatim>\<open>handleSend\<close> passes to \<^verbatim>\<open>setMessages\<close> inside and
  after the loop.\<close>

definition set_content :: "string \<Rightarrow> string \<Rightarrow> ChatMessage list \<Rightarrow> ChatMessage list" where
  "set_content botMsgId fullContent prev =
     map (\<lambda>msg. if msg_id msg = botMsgId then msg\<lparr>content := fullContent\<rparr> else msg) prev"

definition clear_streaming :: "string \<Rightarrow> ChatMessage list \<Rightarrow> ChatMessage list" where
  "clear_streaming botMsgId prev =
     map (\<lambda>msg. if msg_id msg = botMsgId then msg\<lparr>isStreaming := Some False\<rparr> else msg) prev"

text \<open>
  The \<^verbatim>\<open>for await\<close> loop. The arguments are the identifier of the placeholder, the
  accumulator \<^verbatim>\<open>fullContent\<close>, the current message list and the chunks still to come; the
  result lists the message lists written by the loop, one for each chunk whose text is
  neither undefined nor empty.
\<close>

fun for_await ::
  "string \<Rightarrow> string \<Rightarrow> ChatMessage list \<Rightarrow> string option list \<Rightarrow> ChatMessage list list" where
  "for_await botMsgId fullContent msgs [] = []"
| "for_await botMsgId fullContent msgs (chunk # rest) =
     (case chunk of
        None \<Rightarrow> for_await botMsgId fullContent msgs rest
      | Some t \<Rightarrow>
          if t \<noteq> []
          then (let fullContent' = fullContent @ t;
                    msgs' = set_content botMsgId fullContent' msgs
                in msgs' # for_await botMsgId fullContent' msgs' rest)
          else for_await botMsgId fullContent msgs rest)"

text \<open>
  \<^verbatim>\<open>handleSend\<close>. The three numbers are the readings of \<^verbatim>\<open>Date.now()\<close> for the user
  message, for the placeholder and in the \<^verbatim>\<open>catch\<close> block. The first function gives the
  successive values of the message list, one per call of \<^verbatim>\<open>setMessages\<close> (none when the
  guard returns early); the second gives the state when the operation has ended, after the
  \<^verbatim>\<open>finally\<close> block.
\<close>

definition apology :: string where
  "apology = ''Sorry, I encountered an error. Please try again.''"

definition handleSend_messages ::
  "nat \<Rightarrow> nat \<Rightarrow> nat \<Rightarrow> SendOutcome \<Rightarrow> ChatState \<Rightarrow> ChatMessage list list" where
  "handleSend_messages t_user t_bot t_catch outcome st =
     (if trim (input st) = [] \<or> isLoading st then []
      else
        (let userMsg = \<lparr>msg_id = decimal t_user, role = User, content = input st,
                         isStreaming = None\<rparr>;
             with_user = messages st @ [userMsg];
             apology_msg = \<lparr>msg_id = decimal t_catch, role = Model, content = apology,
                             isStreaming = None\<rparr>
         in with_user #
            (case outcome of
               InitiationFailed \<Rightarrow> [with_user @ [apology_msg]]
             | Stream chunks ending \<Rightarrow>
                 (let botMsgId = decimal (t_bot + 1);
                      with_placeholder =
                        with_user @ [\<lparr>msg_id = botMsgId, role = Model, content = [],
                                      isStreaming = Some True\<rparr>];
                      updates = for_await botMsgId [] with_placeholder chunks;
                      streamed = last (with_placeholder # updates)
                  in with_placeholder # updates @
                     (case ending of
                        Completed \<Rightarrow> [clear_streaming botMsgId streamed]
                      | Raised \<Rightarrow> [streamed @ [apology_msg]])))))"

definition handleSend :: "nat \<Rightarrow> nat \<Rightarrow> nat \<Rightarrow> SendOutcome \<Rightarrow> ChatState \<Rightarrow> ChatState" where
  "handleSend t_user t_bot t_catch outcome st =
     (if trim (input st) = [] \<or> isLoading st then st
      else st\<lparr>messages := last (handleSend_messages t_user t_bot t_catch outcome st),
              input := [],
              isLoading := False\<rparr>)"

text \<open>The text-bearing fragments of a stream: the chunks that pass the test
  \<^verbatim>\<open>if (text)\<close>.\<close>

fun fragments :: "string option list \<Rightarrow> string list" where
  "fragments [] = []"
| "fragments (None # rest) = fragments rest"
| "fragments (Some t # rest) = (if t \<noteq> [] then t # fragments rest else fragments rest)"

text \<open>What the user sees of the reply while it is streamed: content and streaming flag of
  the most recently appended message, for each value of the message list.\<close>

definition visible_reply :: "ChatMessage list list \<Rightarrow> (string \<times> bool option) list" where
  "visible_reply trace = map (\<lambda>msgs. (content (last msgs), isStreaming (last msgs))) trace"



section \<open>Restaurant finder: aggregate ratings\<close>

text \<open>
  Arithmetic on JavaScript numbers. A finite double is the rational it denotes; the result
  of an operation is the exact result rounded to the nearest double, ties to the even
  significand. \<open>binary_exponent x\<close> is, for positive \<open>x\<close>, the exponent \<open>e\<close> with
  \<open>2\<^sup>e \<le> x < 2\<^sup>e\<^sup>+\<^sup>1\<close>; a double has 53 significant bits, and below \<open>2\<^sup>-\<^sup>1\<^sup>0\<^sup>2\<^sup>2\<close> the spacing
  stays that of the smallest normal numbers. Results of magnitude \<open>2\<^sup>1\<^sup>0\<^sup>2\<^sup>4\<close> or more
  (Infinity) and NaN are outside this model.
\<close>

definition round_half_even :: "rat \<Rightarrow> int" where
  "round_half_even y =
     (let f = \<lfloor>y\<rfloor>; r = y - of_int f
      in if r < 1 / 2 then f else if 1 / 2 < r then f + 1 else if even f then f else f + 1)"

definition binary_exponent :: "rat \<Rightarrow> int" where
  "binary_exponent x = (if 1 \<le> x then bitlen \<lfloor>x\<rfloor> - 1 else - bitlen (\<lceil>1 / x\<rceil> - 1))"

definition to_double :: "rat \<Rightarrow> rat" where
  "to_double x =
     (if x = 0 then 0
      else (let a = \<bar>x\<bar>;
                e = max (binary_exponent a) (- 1022);
                ulp = 2 powi (e - 52)
            in sgn x * of_int (round_half_even (a / ulp)) * ulp))"

definition js_add :: "rat \<Rightarrow> rat \<Rightarrow> rat" where
  "js_add a b = to_double (a + b)"

definition js_div :: "rat \<Rightarrow> rat \<Rightarrow> rat" where
  "js_div a b = to_double (a / b)"

text \<open>
  \<^verbatim>\<open>Number.prototype.toFixed(1)\<close>: the sign, then the integer \<open>n\<close> for which \<open>n / 10\<close> is
  closest to the magnitude (the larger one of two candidates), written in decimal with a
  point before its last digit and a leading zero when it has a single digit. From
  \<open>10\<^sup>2\<^sup>1\<close> on the method answers in exponential notation, which is not modelled: the
  result is \<open>None\<close> there.
\<close>

definition toFixed1 :: "rat \<Rightarrow> string option" where
  "toFixed1 x =
     (if 10 ^ 21 \<le> \<bar>x\<bar> then None
      else (let n = nat \<lfloor>\<bar>x\<bar> * 10 + 1 / 2\<rfloor>
            in Some ((if x < 0 then ''-'' else [])
                     @ decimal (n div 10) @ ''.'' @ [digit_char (n mod 10)])))"

text \<open>The object returned by \<^verbatim>\<open>getRestaurantStats\<close>; the function returns \<^verbatim>\<open>null\<close>
  (\<open>None\<close>) when no review matches.\<close>

record RestaurantStats =
  average :: "string option"
  count :: nat

definition getRestaurantStats :: "FinderState \<Rightarrow> string \<Rightarrow> RestaurantStats option" where
  "getRestaurantStats st t =
     (let restaurantReviews = filter (\<lambda>r. restaurantTitle r = t) (reviews st)
      in if length restaurantReviews = 0 then None
         else (let sum = foldl (\<lambda>acc r. js_add acc (rating r)) 0 restaurantReviews
               in Some \<lparr>average = toFixed1 (js_div sum (of_nat (length restaurantReviews))),
                        count = length restaurantReviews\<rparr>))"

text \<open>A rating as the review dialog produces it: one of the integers 1 to 5.\<close>

definition star_rating :: "rat \<Rightarrow> bool" where
  "star_rating x = (x \<in> {1, 2, 3, 4, 5})"


text \<open>The review list of the specification's example: ratings 4 and 5 for "A" and 1 for
  "B".\<close>

definition example_reviews :: "Review list" where
  "example_reviews =
     [\<lparr>review_id = ''1'', restaurantTitle = ''A'', rating = 4, comment = [], timestamp = 1\<rparr>,
      \<lparr>review_id = ''2'', restaurantTitle = ''A'', rating = 5, comment = [], timestamp = 2\<rparr>,
      \<lparr>review_id = ''3'', restaurantTitle = ''B'', rating = 1, comment = [], timestamp = 3\<rparr>]"


section \<open>Filter toggling\<close>

lemma toggleFilter_distinct:
  "distinct current \<Longrightarrow> distinct (toggleFilter item current)"
  by (simp add: toggleFilter_def)

lemma toggle_all_distinct:
  "distinct start \<Longrightarrow> distinct (toggle_all items start)"
  unfolding toggle_all_def
  by (induction items arbitrary: start) (simp_all add: toggleFilter_distinct)

lemma filter_neq_absent:
  "x \<notin> set xs \<Longrightarrow> filter (\<lambda>i. i \<noteq> x) xs = xs"
  by (induction xs) auto

lemma toggleFilter_absent_twice:
  "item \<notin> set current \<Longrightarrow> toggleFilter item (toggleFilter item current) = current"
  by (simp add: toggleFilter_def filter_neq_absent)

lemma toggleFilter_present_twice:
  "item \<in> set current \<Longrightarrow>
     toggleFilter item (toggleFilter item current) = filter (\<lambda>i. i \<noteq> item) current @ [item]"
  by (simp add: toggleFilter_def)

lemma filter_mset_neq_absent:
  "x \<notin> set xs \<Longrightarrow> filter_mset (\<lambda>i. i \<noteq> x) (mset xs) = mset xs"
  by (simp flip: mset_filter add: filter_neq_absent)

lemma mset_filter_neq_plus_one:
  "distinct xs \<Longrightarrow> x \<in> set xs \<Longrightarrow> mset (filter (\<lambda>i. i \<noteq> x) xs) + {#x#} = mset xs"
  by (induction xs) (auto simp: filter_mset_neq_absent)

text \<open>
  Claim C9. For every selection list and every tag, toggling the same tag twice in
  succession gives back a list with the original contents, in which the elements other than
  the tag keep their original relative order. When the tag was absent the list is restored
  exactly; when it was present it is removed and appended again, so it ends up last. A list
  without repetitions keeps each element exactly once.
\<close>

theorem toggleFilter_twice:
  "set (toggleFilter item (toggleFilter item current)) = set current
   \<and> filter (\<lambda>i. i \<noteq> item) (toggleFilter item (toggleFilter item current))
       = filter (\<lambda>i. i \<noteq> item) current
   \<and> (item \<notin> set current \<longrightarrow> toggleFilter item (toggleFilter item current) = current)
   \<and> (distinct current \<longrightarrow>
         mset (toggleFilter item (toggleFilter item current)) = mset current)"
proof (cases "item \<in> set current")
  case True
  then have tw: "toggleFilter item (toggleFilter item current)
                   = filter (\<lambda>i. i \<noteq> item) current @ [item]"
    by (rule toggleFilter_present_twice)
  have "set (filter (\<lambda>i. i \<noteq> item) current @ [item]) = set current"
    using True by auto
  moreover have "distinct current \<longrightarrow>
      mset (filter (\<lambda>i. i \<noteq> item) current @ [item]) = mset current"
    using True mset_filter_neq_plus_one [of current item] by simp
  ultimately show ?thesis
    using True by (simp add: tw)
next
  case False
  then show ?thesis
    by (simp add: toggleFilter_absent_twice)
qed

theorem toggleFilter_twice_witness:
  "set (toggleFilter ''Vegan'' (toggleFilter ''Vegan'' [''Vegan'', ''Halal''])) = {''Vegan'', ''Halal''}
   \<and> filter (\<lambda>i. i \<noteq> ''Vegan'') (toggleFilter ''Vegan'' (toggleFilter ''Vegan'' [''Vegan'', ''Halal'']))
       = [''Halal'']
   \<and> ''Vegan'' \<notin> set [''Halal'']
   \<and> toggleFilter ''Vegan'' (toggleFilter ''Vegan'' [''Halal'']) = [''Halal'']
   \<and> distinct [''Vegan'', ''Halal'']
   \<and> mset (toggleFilter ''Vegan'' (toggleFilter ''Vegan'' [''Vegan'', ''Halal'']))
       = mset [''Vegan'', ''Halal'']"
  using toggleFilter_twice [of "''Vegan''" "[''Vegan'', ''Halal'']"]
        toggleFilter_twice [of "''Vegan''" "[''Halal'']"]
  by simp

text \<open>
  Claim C10. Starting from the empty selection list, every sequence of toggle operations
  leaves a list without duplicate elements: a tag is appended only when it is not already
  present, and removing a tag deletes every occurrence of it.
\<close>

theorem toggle_all_no_duplicates:
  "distinct (toggle_all items [])
   \<and> (distinct current \<longrightarrow> distinct (toggleFilter item current))
   \<and> (item \<notin> set current \<longrightarrow> toggleFilter item current = current @ [item])
   \<and> (item \<in> set current \<longrightarrow> item \<notin> set (toggleFilter item current))"
proof -
  have "distinct (toggle_all items [])"
    by (rule toggle_all_distinct) simp
  moreover have "distinct current \<longrightarrow> distinct (toggleFilter item current)"
    by (simp add: toggleFilter_distinct)
  moreover have "item \<notin> set current \<longrightarrow> toggleFilter item current = current @ [item]"
    by (simp add: toggleFilter_def)
  moreover have "item \<in> set current \<longrightarrow> item \<notin> set (toggleFilter item current)"
    by (simp add: toggleFilter_def)
  ultimately show ?thesis by simp
qed

theorem toggle_all_no_duplicates_witness:
  "distinct (toggle_all [''Vegan'', ''Halal'', ''Vegan'', ''Wi-Fi''] [])
   \<and> distinct [''Vegan'', ''Vegan'', ''Halal''] = False
   \<and> distinct [''Halal'', ''Vegan''] \<and> distinct (toggleFilter ''Vegan'' [''Halal'', ''Vegan''])
   \<and> ''Vegan'' \<notin> set [''Halal'']
   \<and> toggleFilter ''Vegan'' [''Halal''] = [''Halal'', ''Vegan'']
   \<and> ''Vegan'' \<in> set [''Vegan'', ''Vegan'', ''Halal'']
   \<and> ''Vegan'' \<notin> set (toggleFilter ''Vegan'' [''Vegan'', ''Vegan'', ''Halal''])"
  using toggle_all_no_duplicates [of "[''Vegan'', ''Halal'', ''Vegan'', ''Wi-Fi'']" "[''Halal'', ''Vegan'']" "''Vegan''"]
        toggle_all_no_duplicates [of "[]" "[''Halal'']" "''Vegan''"]
        toggle_all_no_duplicates [of "[]" "[''Vegan'', ''Vegan'', ''Halal'']" "''Vegan''"]
  by simp

section \<open>Prompt construction\<close>

lemma prompt_contains_cuisine:
  assumes "c \<noteq> ''Any Cuisine''"
  shows "sublist c (prompt c p d a x)"
proof -
  have "sublist c (''Find top-rated '' @ c @ rest)" for rest
    by (rule sublist_appendI)
  then show ?thesis
    using assms unfolding prompt_def by (simp only: if_False append_assoc)
qed

lemma prompt_sentinels:
  "prompt ''Any Cuisine'' ''Any Price'' d a x
     = ''Find top-rated  restaurants near me that are in the any price range. '' @ [newline]
       @ ''  '' @ filterText d a x @ [newline]
       @ ''  Provide a helpful summary of the top recommendations, mentioning their ratings, ''
       @ ''specific matches for the user's requirements, and what they are known for.'' @ [newline]
       @ ''  Do not invent places. Only use the Google Maps tool to find real places.''"
  by (simp add: prompt_def)

lemma prompt_sentinels_names_nothing:
  "list_all (\<lambda>name. \<not> sublist name (prompt ''Any Cuisine'' ''Any Price'' [] [] None))
     (cuisine_names @ price_tiers)"
  by code_simp

text \<open>
  Claim C3. When the cuisine is the sentinel "Any Cuisine" and the price is the sentinel
  "Any Price", the first sentence of the prompt has an empty cuisine slot and the word
  "any" in the price slot, and the rest of the prompt is the filter text and the fixed
  instructions: with no further filters no cuisine name and no price tier occurs anywhere
  in the prompt. For every cuisine other than the sentinel the prompt contains the value
  literally.
\<close>

theorem prompt_sentinel_omission:
  "prompt ''Any Cuisine'' ''Any Price'' d a x
     = ''Find top-rated  restaurants near me that are in the any price range. '' @ [newline]
       @ ''  '' @ filterText d a x @ [newline]
       @ ''  Provide a helpful summary of the top recommendations, mentioning their ratings, ''
       @ ''specific matches for the user's requirements, and what they are known for.'' @ [newline]
       @ ''  Do not invent places. Only use the Google Maps tool to find real places.''
   \<and> list_all (\<lambda>name. \<not> sublist name (prompt ''Any Cuisine'' ''Any Price'' [] [] None))
         (cuisine_names @ price_tiers)
   \<and> (c \<noteq> ''Any Cuisine'' \<longrightarrow> sublist c (prompt c p d a x))"
proof (intro conjI impI)
  show "list_all (\<lambda>name. \<not> sublist name (prompt ''Any Cuisine'' ''Any Price'' [] [] None))
          (cuisine_names @ price_tiers)"
    by (rule prompt_sentinels_names_nothing)
next
  assume "c \<noteq> ''Any Cuisine''"
  then show "sublist c (prompt c p d a x)"
    by (rule prompt_contains_cuisine)
qed (rule prompt_sentinels)

theorem prompt_sentinel_omission_witness:
  "''Thai'' \<noteq> ''Any Cuisine''
   \<and> sublist ''Thai'' (prompt ''Thai'' ''$$'' [''Vegan''] [] (Some ''Pad Thai''))
   \<and> \<not> sublist ''Thai'' (prompt ''Any Cuisine'' ''Any Price'' [] [] None)
   \<and> \<not> sublist ''$'' (prompt ''Any Cuisine'' ''Any Price'' [] [] None)"
proof -
  note inst = prompt_sentinel_omission [of "[''Vegan'']" "[]" "Some ''Pad Thai''" "''Thai''" "''$$''"]
  have thai: "''Thai'' \<noteq> ''Any Cuisine''"
    by simp
  have "list_all (\<lambda>name. \<not> sublist name (prompt ''Any Cuisine'' ''Any Price'' [] [] None))
          (cuisine_names @ price_tiers)"
    using inst by (rule conjunct1 [OF conjunct2])
  then have "\<not> sublist ''Thai'' (prompt ''Any Cuisine'' ''Any Price'' [] [] None)
           \<and> \<not> sublist ''$'' (prompt ''Any Cuisine'' ''Any Price'' [] [] None)"
    by (simp only: cuisine_names_def price_tiers_def list.pred_inject append.simps simp_thms)
  moreover have "sublist ''Thai'' (prompt ''Thai'' ''$$'' [''Vegan''] [] (Some ''Pad Thai''))"
    using inst [THEN conjunct2, THEN conjunct2] thai by (rule mp)
  ultimately show ?thesis
    using thai by (simp only: simp_thms)
qed





section \<open>Normalising the provider's response\<close>

lemma text_or_fallback_cases:
  "(\<forall>t. rt = Some t \<and> t \<noteq> [] \<longrightarrow> text_or_fallback rt = t)
   \<and> (rt = None \<or> rt = Some [] \<longrightarrow> text_or_fallback rt = ''No details found.'')"
  by (auto simp: text_or_fallback_def)

lemma extract_chunks_present:
  "candidates response = Some (cand # others) \<Longrightarrow> groundingMetadata cand = Some gm \<Longrightarrow>
     metadataChunks gm = Some chunks \<Longrightarrow> extract_chunks response = chunks"
  by (simp add: extract_chunks_def)

lemma extract_chunks_absent:
  "candidates response = None \<or> candidates response = Some []
   \<or> (\<exists>cand others. candidates response = Some (cand # others)
          \<and> (groundingMetadata cand = None
              \<or> (\<exists>gm. groundingMetadata cand = Some gm \<and> metadataChunks gm = None)))
   \<Longrightarrow> extract_chunks response = []"
  by (auto simp: extract_chunks_def)

text \<open>
  Claim C6. Whenever the provider answers with a response, the grounded search returns a
  result and raises nothing. The text of the result is the provider's text when that text
  is non-empty, and "No details found." when it is empty or absent. The grounding chunks
  of the result are the provider's chunk list when the first candidate, its grounding
  metadata and the chunk list are all present, and the empty list when any of them is
  absent.
\<close>

theorem findRestaurants_normalises_response:
  assumes "provider (search_request coords c p d a x) = Inr response"
  shows "\<exists>r. snd (findRestaurants provider coords c p d a x) = Inr r
     \<and> (\<forall>t. response_text response = Some t \<and> t \<noteq> [] \<longrightarrow> text_field r = t)
     \<and> (response_text response = None \<or> response_text response = Some []
          \<longrightarrow> text_field r = ''No details found.'')
     \<and> (\<forall>cand others gm chunks.
            candidates response = Some (cand # others) \<and> groundingMetadata cand = Some gm
            \<and> metadataChunks gm = Some chunks
          \<longrightarrow> groundingChunks r = chunks)
     \<and> (candidates response = None \<or> candidates response = Some []
          \<or> (\<exists>cand others. candidates response = Some (cand # others)
                 \<and> (groundingMetadata cand = None
                     \<or> (\<exists>gm. groundingMetadata cand = Some gm \<and> metadataChunks gm = None)))
          \<longrightarrow> groundingChunks r = [])"
proof -
  let ?r = "\<lparr>text_field = text_or_fallback (response_text response),
             groundingChunks = extract_chunks response\<rparr>"
  have "snd (findRestaurants provider coords c p d a x) = Inr ?r"
    using assms by (simp add: findRestaurants_def)
  moreover have "\<forall>t. response_text response = Some t \<and> t \<noteq> [] \<longrightarrow> text_field ?r = t"
    using text_or_fallback_cases [of "response_text response"] by simp
  moreover have "response_text response = None \<or> response_text response = Some []
                   \<longrightarrow> text_field ?r = ''No details found.''"
    using text_or_fallback_cases [of "response_text response"] by simp
  moreover have "\<forall>cand others gm chunks.
            candidates response = Some (cand # others) \<and> groundingMetadata cand = Some gm
            \<and> metadataChunks gm = Some chunks
          \<longrightarrow> groundingChunks ?r = chunks"
    by (simp add: extract_chunks_present)
  moreover have "candidates response = None \<or> candidates response = Some []
          \<or> (\<exists>cand others. candidates response = Some (cand # others)
                 \<and> (groundingMetadata cand = None
                     \<or> (\<exists>gm. groundingMetadata cand = Some gm \<and> metadataChunks gm = None)))
          \<longrightarrow> groundingChunks ?r = []"
    using extract_chunks_absent [of response] by simp
  ultimately show ?thesis
    by blast
qed

theorem findRestaurants_normalises_response_witness:
  "snd (findRestaurants
          (\<lambda>request. Inr \<lparr>response_text = Some ''Try Baan Thai.'',
                           candidates = Some [\<lparr>groundingMetadata =
                             Some \<lparr>metadataChunks = Some [\<lparr>maps = None\<rparr>]\<rparr>\<rparr>]\<rparr>)
          \<lparr>latitude = 1, longitude = 2\<rparr> ''Thai'' ''$$'' [] [] None)
     = Inr \<lparr>text_field = ''Try Baan Thai.'', groundingChunks = [\<lparr>maps = None\<rparr>]\<rparr>
   \<and> snd (findRestaurants
          (\<lambda>request. Inr \<lparr>response_text = Some [], candidates = Some []\<rparr>)
          \<lparr>latitude = 1, longitude = 2\<rparr> ''Thai'' ''$$'' [] [] None)
     = Inr \<lparr>text_field = ''No details found.'', groundingChunks = []\<rparr>"
  using findRestaurants_normalises_response
          [of "\<lambda>request. Inr \<lparr>response_text = Some ''Try Baan Thai.'',
                           candidates = Some [\<lparr>groundingMetadata =
                             Some \<lparr>metadataChunks = Some [\<lparr>maps = None\<rparr>]\<rparr>\<rparr>]\<rparr>"
              "\<lparr>latitude = 1, longitude = 2\<rparr>" "''Thai''" "''$$''" "[]" "[]" None
              "\<lparr>response_text = Some ''Try Baan Thai.'',
                           candidates = Some [\<lparr>groundingMetadata =
                             Some \<lparr>metadataChunks = Some [\<lparr>maps = None\<rparr>]\<rparr>\<rparr>]\<rparr>"]
        findRestaurants_normalises_response
          [of "\<lambda>request. Inr \<lparr>response_text = Some [], candidates = Some []\<rparr>"
              "\<lparr>latitude = 1, longitude = 2\<rparr>" "''Thai''" "''$$''" "[]" "[]" None
              "\<lparr>response_text = Some [], candidates = Some []\<rparr>"]
  by auto

section \<open>Location requests and the search precondition\<close>






lemma handleSearch_with_location_calls:
  "location st = Some loc \<Longrightarrow>
     service_calls (handleSearch provider st)
       = [search_request loc (cuisine st) (price st) (dietary st) (amenities st)
            (Some (customDish st))]"
  by (simp add: handleSearch_def findRestaurants_def Let_def split: sum.split)

text \<open>
  Claim C5. When no location is present, executing a search sets the error message to
  "Please enable location services to find restaurants nearby.", sends no request to the
  AI integration service, and leaves the result and the searching flag as they were.
\<close>

theorem handleSearch_without_location:
  assumes "location st = None"
  shows "handleSearch provider st
           = [SetError (Some ''Please enable location services to find restaurants nearby.'')]
       \<and> service_calls (handleSearch provider st) = []
       \<and> run (handleSearch provider st) st
           = st\<lparr>error := Some ''Please enable location services to find restaurants nearby.''\<rparr>
       \<and> result (run (handleSearch provider st) st) = result st
       \<and> isSearching (run (handleSearch provider st) st) = isSearching st"
  using assms by (simp add: handleSearch_def)

theorem handleSearch_without_location_witness:
  "location initial_state = None
   \<and> service_calls (handleSearch (\<lambda>request. Inl (ProviderError ''offline'')) initial_state) = []
   \<and> error (run (handleSearch (\<lambda>request. Inl (ProviderError ''offline'')) initial_state)
               initial_state)
       = Some ''Please enable location services to find restaurants nearby.''
   \<and> result (run (handleSearch (\<lambda>request. Inl (ProviderError ''offline'')) initial_state)
                initial_state) = None
   \<and> isSearching (run (handleSearch (\<lambda>request. Inl (ProviderError ''offline'')) initial_state)
                initial_state) = False"
  using handleSearch_without_location [of initial_state "\<lambda>request. Inl (ProviderError ''offline'')"]
  by (simp add: initial_state_def)


section \<open>Chat streaming\<close>

lemma for_await_fragments:
  "for_await b full msgs chunks = for_await b full msgs (map Some (fragments chunks))"
  by (induction chunks arbitrary: full msgs) (auto simp: Let_def split: option.splits)

lemma set_content_snoc:
  "set_content b full (xs @ [m])
     = set_content b full xs @ [if msg_id m = b then m\<lparr>content := full\<rparr> else m]"
  by (simp add: set_content_def)

lemma clear_streaming_snoc:
  "clear_streaming b (xs @ [m])
     = clear_streaming b xs @ [if msg_id m = b then m\<lparr>isStreaming := Some False\<rparr> else m]"
  by (simp add: clear_streaming_def)

lemma length_set_content: "length (set_content b full xs) = length xs"
  by (simp add: set_content_def)

lemma length_clear_streaming: "length (clear_streaming b xs) = length xs"
  by (simp add: clear_streaming_def)


lemma handleSend_messages_completed:
  assumes "trim (input st) \<noteq> []" and "\<not> isLoading st"
    and "fragments chunks = [''Hello'', '', '', ''world'']"
  shows "tl (handleSend_messages t_user t_bot t_catch (Stream chunks Completed) st)
     = (let b = decimal (t_bot + 1);
            u = messages st @ [\<lparr>msg_id = decimal t_user, role = User, content = input st,
                                 isStreaming = None\<rparr>]
        in [u @ [\<lparr>msg_id = b, role = Model, content = [], isStreaming = Some True\<rparr>],
            set_content b ''Hello'' u
              @ [\<lparr>msg_id = b, role = Model, content = ''Hello'', isStreaming = Some True\<rparr>],
            set_content b ''Hello, '' (set_content b ''Hello'' u)
              @ [\<lparr>msg_id = b, role = Model, content = ''Hello, '', isStreaming = Some True\<rparr>],
            set_content b ''Hello, world'' (set_content b ''Hello, '' (set_content b ''Hello'' u))
              @ [\<lparr>msg_id = b, role = Model, content = ''Hello, world'', isStreaming = Some True\<rparr>],
            clear_streaming b
              (set_content b ''Hello, world'' (set_content b ''Hello, '' (set_content b ''Hello'' u)))
              @ [\<lparr>msg_id = b, role = Model, content = ''Hello, world'', isStreaming = Some False\<rparr>]])"
  using assms
  by (simp add: handleSend_messages_def Let_def for_await_fragments [of _ _ _ chunks]
        set_content_snoc clear_streaming_snoc)

text \<open>
  Claim C8. For every chat exchange that passes the guard of the send operation and whose
  stream yields the text fragments "Hello", ", " and "world" (chunks without text may lie
  between them) and then completes, the reply message, which is the last message of the
  list from the moment the placeholder is appended, shows exactly the contents "", "Hello",
  "Hello, ", "Hello, world" in this order, each write replacing the content by the whole
  accumulated text; its streaming flag is true in all of these states and becomes false
  only in the write that follows the last of them, which leaves the content unchanged.
\<close>

theorem streaming_accumulation:
  assumes "trim (input st) \<noteq> []" and "\<not> isLoading st"
    and "fragments chunks = [''Hello'', '', '', ''world'']"
  shows "visible_reply (tl (handleSend_messages t_user t_bot t_catch (Stream chunks Completed) st))
           = [([], Some True), (''Hello'', Some True), (''Hello, '', Some True),
              (''Hello, world'', Some True), (''Hello, world'', Some False)]
       \<and> list_all (\<lambda>msgs. length msgs = length (messages st) + 2
                           \<and> msg_id (last msgs) = decimal (t_bot + 1)
                           \<and> role (last msgs) = Model)
           (tl (handleSend_messages t_user t_bot t_catch (Stream chunks Completed) st))
       \<and> messages (handleSend t_user t_bot t_catch (Stream chunks Completed) st)
           = last (handleSend_messages t_user t_bot t_catch (Stream chunks Completed) st)
       \<and> isLoading (handleSend t_user t_bot t_catch (Stream chunks Completed) st) = False"
proof -
  note tr = handleSend_messages_completed [OF assms, of t_user t_bot t_catch]
  have "visible_reply (tl (handleSend_messages t_user t_bot t_catch (Stream chunks Completed) st))
           = [([], Some True), (''Hello'', Some True), (''Hello, '', Some True),
              (''Hello, world'', Some True), (''Hello, world'', Some False)]"
    by (simp add: tr Let_def visible_reply_def)
  moreover have "list_all (\<lambda>msgs. length msgs = length (messages st) + 2
                           \<and> msg_id (last msgs) = decimal (t_bot + 1)
                           \<and> role (last msgs) = Model)
           (tl (handleSend_messages t_user t_bot t_catch (Stream chunks Completed) st))"
    by (simp add: tr Let_def length_set_content length_clear_streaming)
  moreover have "messages (handleSend t_user t_bot t_catch (Stream chunks Completed) st)
           = last (handleSend_messages t_user t_bot t_catch (Stream chunks Completed) st)"
    using assms(1,2) by (simp add: handleSend_def)
  moreover have "isLoading (handleSend t_user t_bot t_catch (Stream chunks Completed) st) = False"
    using assms(1,2) by (simp add: handleSend_def)
  ultimately show ?thesis by simp
qed



theorem streaming_accumulation_witness:
  "trim (input (initial_chat\<lparr>input := ''hi''\<rparr>)) \<noteq> []
   \<and> \<not> isLoading (initial_chat\<lparr>input := ''hi''\<rparr>)
   \<and> fragments [Some ''Hello'', None, Some '', '', Some [], Some ''world'']
       = [''Hello'', '', '', ''world'']
   \<and> visible_reply (tl (handleSend_messages 1000 1500 1600
         (Stream [Some ''Hello'', None, Some '', '', Some [], Some ''world''] Completed)
         (initial_chat\<lparr>input := ''hi''\<rparr>)))
       = [([], Some True), (''Hello'', Some True), (''Hello, '', Some True),
          (''Hello, world'', Some True), (''Hello, world'', Some False)]"
proof -
  have g: "trim (input (initial_chat\<lparr>input := ''hi''\<rparr>)) \<noteq> []"
    by (simp add: trim_def is_space_def)
  have l: "\<not> isLoading (initial_chat\<lparr>input := ''hi''\<rparr>)"
    by (simp add: initial_chat_def)
  have f: "fragments [Some ''Hello'', None, Some '', '', Some [], Some ''world'']
             = [''Hello'', '', '', ''world'']"
    by simp
  show ?thesis
    using g l f streaming_accumulation [OF g l f, of 1000 1500 1600]
    by (simp only: simp_thms)
qed





section \<open>Aggregate ratings\<close>

lemma round_half_even_of_int: "round_half_even (of_int k) = k"
  by (simp add: round_half_even_def)

lemma round_half_even_error: "\<bar>of_int (round_half_even y) - y\<bar> \<le> 1 / 2"
proof -
  have "of_int \<lfloor>y\<rfloor> \<le> y" "y < of_int \<lfloor>y\<rfloor> + 1"
    by linarith+
  then show ?thesis
    unfolding round_half_even_def Let_def by (auto simp: abs_le_iff)
qed

lemma bitlen_pos: "0 < k \<Longrightarrow> 1 \<le> bitlen k"
  by (simp add: bitlen_alt_def)

lemma bitlen_upper: "0 < k \<Longrightarrow> k < 2 ^ n \<Longrightarrow> bitlen k \<le> int n"
  using bitlen_le_iff_power [of k "int n"] by simp

lemma to_double_of_int:
  assumes "0 \<le> k" and "k < 2 ^ 53"
  shows "to_double (of_int k) = of_int k"
proof (cases "k = 0")
  case True
  then show ?thesis by (simp add: to_double_def)
next
  case False
  with assms have pos: "0 < k" by simp
  define e where "e = bitlen k - 1"
  have e0: "0 \<le> e" using bitlen_pos [OF pos] by (simp add: e_def)
  have e52: "e \<le> 52" using bitlen_upper [OF pos assms(2)] by (simp add: e_def)
  have be: "binary_exponent (of_int k) = e"
    using pos by (simp add: binary_exponent_def e_def)
  define j where "j = nat (52 - e)"
  have ulp: "(2::rat) powi (e - 52) = 1 / 2 ^ j"
    using e52 by (simp add: j_def power_int_def field_simps)
  have scaled: "(of_int k :: rat) / (1 / 2 ^ j) = of_int (k * 2 ^ j)"
    by simp
  have "to_double (of_int k) = of_int (round_half_even (of_int k / (1 / 2 ^ j))) * (1 / 2 ^ j)"
    using pos e0 by (simp add: to_double_def be Let_def ulp max_def)
  also have "\<dots> = of_int (k * 2 ^ j) * (1 / 2 ^ j)"
    by (simp only: scaled round_half_even_of_int)
  also have "\<dots> = of_int k"
    by simp
  finally show ?thesis .
qed


lemma star_rating_nat: "star_rating x \<Longrightarrow> \<exists>k::nat. x = of_nat k \<and> 1 \<le> k \<and> k \<le> 5"
proof -
  assume "star_rating x"
  then consider "x = of_nat 1" | "x = of_nat 2" | "x = of_nat 3" | "x = of_nat 4" | "x = of_nat 5"
    by (auto simp: star_rating_def)
  then show ?thesis
    by cases (rule exI [of _ 1], simp, rule exI [of _ 2], simp, rule exI [of _ 3], simp,
              rule exI [of _ 4], simp, rule exI [of _ 5], simp)
qed

lemma js_add_nat:
  assumes "a + k < 2 ^ 53"
  shows "js_add (of_nat a) (of_nat k) = of_nat (a + k)"
proof -
  have "to_double (of_int (int (a + k))) = of_int (int (a + k))"
    using assms by (intro to_double_of_int) (simp_all add: of_nat_less_iff [where 'a = int, symmetric] del: of_nat_less_iff)
  then show ?thesis
    by (simp add: js_add_def)
qed

lemma sum_star_ratings_exact:
  assumes "list_all (\<lambda>r. star_rating (rating r)) rs" and "a + 5 * length rs < 2 ^ 53"
  shows "foldl (\<lambda>acc r. js_add acc (rating r)) (of_nat a) rs
           = of_nat a + sum_list (map rating rs)
         \<and> (\<exists>s::nat. sum_list (map rating rs) = of_nat s \<and> length rs \<le> s \<and> s \<le> 5 * length rs)"
  using assms
proof (induction rs arbitrary: a)
  case Nil
  then show ?case by simp
next
  case (Cons r rs)
  from Cons.prems(1) obtain k :: nat where k: "rating r = of_nat k" "1 \<le> k" "k \<le> 5"
    using star_rating_nat [of "rating r"] by auto
  have step: "js_add (of_nat a) (rating r) = of_nat (a + k)"
    unfolding k(1) using Cons.prems(2) k(3) by (intro js_add_nat) simp
  have "list_all (\<lambda>r. star_rating (rating r)) rs" "(a + k) + 5 * length rs < 2 ^ 53"
    using Cons.prems k(3) by simp_all
  from Cons.IH [OF this] obtain s :: nat where
    ih: "foldl (\<lambda>acc r. js_add acc (rating r)) (of_nat (a + k)) rs
           = of_nat (a + k) + sum_list (map rating rs)"
    and s: "sum_list (map rating rs) = of_nat s" "length rs \<le> s" "s \<le> 5 * length rs"
    by blast
  have "sum_list (map rating (r # rs)) = of_nat (k + s)"
    by (simp add: k(1) s(1))
  moreover have "length (r # rs) \<le> k + s" "k + s \<le> 5 * length (r # rs)"
    using k s by simp_all
  ultimately show ?case
    using ih step by (auto simp: k(1) s(1) intro!: exI [of _ "k + s"])
qed


lemma to_double_error:
  assumes "1 \<le> x" and "x < 8"
  shows "\<bar>to_double x - x\<bar> \<le> 1 / 2 ^ 51"
proof -
  have fl: "0 < \<lfloor>x\<rfloor>" "\<lfloor>x\<rfloor> < 2 ^ 3"
    using assms by (simp_all add: floor_less_iff less_floor_iff)
  define e where "e = max (binary_exponent \<bar>x\<bar>) (- 1022)"
  have be: "binary_exponent \<bar>x\<bar> = bitlen \<lfloor>x\<rfloor> - 1"
    using assms by (simp add: binary_exponent_def)
  have e2: "e \<le> 2"
    using bitlen_upper [OF fl] by (simp add: e_def be)
  define ulp :: rat where "ulp = 2 powi (e - 52)"
  have ulp_pos: "0 < ulp"
    by (simp add: ulp_def)
  have "ulp \<le> 2 powi (- 50)"
    unfolding ulp_def using e2 by (intro power_int_increasing) simp_all
  then have ulp_le: "ulp \<le> 1 / 2 ^ 50"
    by (simp add: power_int_minus field_simps)
  have td: "to_double x = of_int (round_half_even (x / ulp)) * ulp"
    using assms by (simp add: to_double_def Let_def e_def ulp_def)
  have "to_double x - x = (of_int (round_half_even (x / ulp)) - x / ulp) * ulp"
    using ulp_pos by (simp add: td left_diff_distrib)
  then have "\<bar>to_double x - x\<bar> = \<bar>of_int (round_half_even (x / ulp)) - x / ulp\<bar> * \<bar>ulp\<bar>"
    by (simp only: abs_mult)
  also have "\<dots> = \<bar>of_int (round_half_even (x / ulp)) - x / ulp\<bar> * ulp"
    using ulp_pos by simp
  also have "\<dots> \<le> (1 / 2) * ulp"
    using round_half_even_error [of "x / ulp"] ulp_pos by (intro mult_right_mono) simp_all
  also have "\<dots> \<le> (1 / 2) * (1 / 2 ^ 50)"
    using ulp_le by simp
  finally show ?thesis
    by simp
qed

lemma nearest_tenth:
  fixes s c :: int and d :: rat
  assumes c: "0 < c" "c \<le> 2 ^ 46"
    and err: "\<bar>d - of_int s / of_int c\<bar> \<le> 1 / 2 ^ 51"
  shows "\<bar>rat_of_int \<lfloor>d * 10 + 1 / 2\<rfloor> - 10 * (of_int s / of_int c)\<bar> \<le> 1 / 2"
proof -
  define n where "n = \<lfloor>d * 10 + 1 / 2\<rfloor>"
  define C :: rat where "C = of_int c"
  define q :: rat where "q = of_int s / of_int c"
  define S :: rat where "S = of_int s"
  define N :: rat where "N = of_int n * C"
  define D where "D = d * C"
  define E :: rat where "E = 1 / 2 ^ 51 * C"
  have Cpos: "0 < C"
    using c by (simp add: C_def)
  have "C \<le> of_int (2 ^ 46)"
    unfolding C_def using c(2) by (simp only: of_int_le_iff)
  then have small: "E \<le> 1 / 32"
    by (simp add: E_def)
  have qC: "q * C = S"
    using c by (simp add: C_def q_def S_def)
  have "d - q \<le> 1 / 2 ^ 51" "q - d \<le> 1 / 2 ^ 51"
    using err unfolding q_def by linarith+
  then have "(d - q) * C \<le> E" "(q - d) * C \<le> E"
    unfolding E_def using Cpos by (simp_all only: mult_le_cancel_right_pos)
  then have D1: "D - S \<le> E" and D2: "S - D \<le> E"
    by (simp_all only: left_diff_distrib qC D_def [symmetric])
  have "of_int n \<le> d * 10 + 1 / 2" "d * 10 + 1 / 2 < of_int n + 1"
    unfolding n_def by linarith+
  then have "of_int n * C \<le> (d * 10 + 1 / 2) * C" "(d * 10 + 1 / 2) * C < (of_int n + 1) * C"
    using Cpos by (simp_all only: mult_le_cancel_right_pos mult_less_cancel_right_pos)
  moreover have "(d * 10 + 1 / 2) * C = 10 * D + C / 2" "(of_int n + 1) * C = N + C"
    by (simp_all add: D_def N_def algebra_simps)
  ultimately have N1: "N \<le> 10 * D + C / 2" and N2: "10 * D + C / 2 < N + C"
    by (simp_all only: N_def [symmetric])
  have Nint: "2 * N = of_int (2 * (n * c))" and Sint: "20 * S + C = of_int (20 * s + c)"
    and Sint': "20 * S - C = of_int (20 * s - c)"
    by (simp_all add: N_def C_def S_def)
  have "2 * N < 20 * S + C + 1"
    using N1 D1 small by linarith
  then have "(of_int (2 * (n * c)) :: rat) < of_int (20 * s + c + 1)"
    by (simp only: Nint Sint of_int_add of_int_1)
  then have "2 * (n * c) < 20 * s + c + 1"
    by (simp only: of_int_less_iff)
  then have "2 * (n * c) \<le> 20 * s + c"
    by linarith
  then have "(of_int (2 * (n * c)) :: rat) \<le> of_int (20 * s + c)"
    by (simp only: of_int_le_iff)
  then have up: "2 * N \<le> 20 * S + C"
    by (simp only: Nint Sint)
  have "20 * S - C - 1 < 2 * N"
    using N2 D2 small by linarith
  then have "(of_int (20 * s - c - 1) :: rat) < of_int (2 * (n * c))"
    by (simp only: Nint Sint' of_int_diff of_int_1)
  then have "20 * s - c - 1 < 2 * (n * c)"
    by (simp only: of_int_less_iff)
  then have "20 * s - c \<le> 2 * (n * c)"
    by linarith
  then have "(of_int (20 * s - c) :: rat) \<le> of_int (2 * (n * c))"
    by (simp only: of_int_le_iff)
  then have lo: "20 * S - C \<le> 2 * N"
    by (simp only: Nint Sint')
  have "(of_int n - 10 * q) * C = N - 10 * S" "(10 * q - of_int n) * C = 10 * S - N"
    using qC by (simp_all add: N_def left_diff_distrib)
  then have "(of_int n - 10 * q) * C \<le> 1 / 2 * C" "(10 * q - of_int n) * C \<le> 1 / 2 * C"
    using up lo by simp_all
  then have "of_int n - 10 * q \<le> 1 / 2" "10 * q - of_int n \<le> 1 / 2"
    using Cpos by (simp_all only: mult_le_cancel_right_pos)
  then show ?thesis
    unfolding n_def q_def by linarith
qed


lemma toFixed1_of_mean:
  fixes s c :: nat
  assumes c: "0 < c" "c \<le> 2 ^ 46" and s: "c \<le> s" "s \<le> 5 * c"
  shows "\<exists>n::nat. toFixed1 (js_div (of_nat s) (of_nat c))
                    = Some (decimal (n div 10) @ ''.'' @ [digit_char (n mod 10)])
               \<and> \<bar>of_nat n / 10 - of_nat s / of_nat c\<bar> \<le> (1 / 20 :: rat)"
proof -
  define x :: rat where "x = of_nat s / of_nat c"
  define d where "d = to_double x"
  have cpos: "(0 :: rat) < of_nat c"
    using c(1) by simp
  have "(of_nat c :: rat) \<le> of_nat s"
    using s(1) by (simp only: of_nat_le_iff)
  then have x1: "1 \<le> x"
    unfolding x_def using cpos by (simp only: pos_le_divide_eq mult_1)
  have "(of_nat s :: rat) \<le> of_nat (5 * c)"
    using s(2) by (simp only: of_nat_le_iff)
  then have "(of_nat s :: rat) \<le> 5 * of_nat c"
    by simp
  then have x5: "x \<le> 5"
    unfolding x_def using cpos by (simp only: pos_divide_le_eq)
  have err: "\<bar>d - x\<bar> \<le> 1 / 2 ^ 51"
    unfolding d_def using x1 x5 by (intro to_double_error) simp_all
  moreover have "(1 / 2 ^ 51 :: rat) \<le> 1 / 2"
    by simp
  ultimately have "\<bar>d - x\<bar> \<le> 1 / 2"
    by (rule order_trans)
  then have d_lo: "1 / 2 \<le> d" and d_hi: "d \<le> 6"
    using x1 x5 by linarith+
  define z where "z = \<lfloor>d * 10 + 1 / 2\<rfloor>"
  have z0: "0 \<le> z"
    unfolding z_def using d_lo by (simp add: le_floor_iff)
  have "\<bar>d - of_int (int s) / of_int (int c)\<bar> \<le> 1 / 2 ^ 51"
    using err by (simp add: x_def)
  from nearest_tenth [OF _ _ this] c
  have near: "\<bar>rat_of_int z - 10 * x\<bar> \<le> 1 / 2"
    by (simp add: z_def x_def of_nat_le_iff [where 'a = int and n = "2 ^ 46", simplified])
  have "toFixed1 d = Some (decimal (nat z div 10) @ ''.'' @ [digit_char (nat z mod 10)])"
    using d_lo d_hi by (simp add: toFixed1_def z_def Let_def)
  moreover have "\<bar>of_nat (nat z) / 10 - x\<bar> \<le> (1 / 20 :: rat)"
  proof -
    have "(of_nat (nat z) :: rat) = rat_of_int z"
      using z0 by simp
    moreover have "\<bar>rat_of_int z / 10 - x\<bar> \<le> 1 / 20"
      using near by linarith
    ultimately show ?thesis
      by (simp only:)
  qed
  ultimately show ?thesis
    unfolding d_def x_def js_div_def by blast
qed

lemma toFixed1_halfway_examples:
  "toFixed1 (js_div 29 20) = Some ''1.4'' \<and> toFixed1 (js_div 27 20) = Some ''1.4''
   \<and> toFixed1 (js_div 5 4) = Some ''1.3''"
  by code_simp

text \<open>
  Claim C7. For every review list and display title, the aggregate rating is computed
  from the reviews whose \<open>restaurantTitle\<close> equals the title exactly. If there is none, the
  result is "no ratings" (\<open>None\<close>), neither zero nor an error. Otherwise the result carries
  the number of matching reviews; and when the matching ratings are star ratings (integers
  from 1 to 5; a JavaScript array holds fewer than \<open>2\<^sup>3\<^sup>2\<close> of them) its average is a decimal
  numeral with one digit after the point that denotes a tenth nearest to the arithmetic
  mean of the matching ratings. When the mean lies halfway between two tenths, either of
  them is nearest; which one appears depends on the double nearest to the mean.
\<close>

theorem getRestaurantStats_aggregate:
  "(filter (\<lambda>r. restaurantTitle r = t) (reviews st) = [] \<longrightarrow> getRestaurantStats st t = None)
   \<and> (filter (\<lambda>r. restaurantTitle r = t) (reviews st) \<noteq> [] \<longrightarrow>
        (\<exists>a. getRestaurantStats st t
               = Some \<lparr>average = a,
                       count = length (filter (\<lambda>r. restaurantTitle r = t) (reviews st))\<rparr>))
   \<and> (filter (\<lambda>r. restaurantTitle r = t) (reviews st) \<noteq> []
        \<and> list_all (\<lambda>r. star_rating (rating r)) (filter (\<lambda>r. restaurantTitle r = t) (reviews st))
        \<and> length (filter (\<lambda>r. restaurantTitle r = t) (reviews st)) < 2 ^ 32 \<longrightarrow>
        (\<exists>n::nat. getRestaurantStats st t
               = Some \<lparr>average = Some (decimal (n div 10) @ ''.'' @ [digit_char (n mod 10)]),
                       count = length (filter (\<lambda>r. restaurantTitle r = t) (reviews st))\<rparr>
             \<and> \<bar>of_nat n / 10
                 - sum_list (map rating (filter (\<lambda>r. restaurantTitle r = t) (reviews st)))
                   / of_nat (length (filter (\<lambda>r. restaurantTitle r = t) (reviews st)))\<bar>
               \<le> 1 / 20))"
proof (intro conjI impI)
  show "getRestaurantStats st t = None"
    if "filter (\<lambda>r. restaurantTitle r = t) (reviews st) = []"
    using that by (simp add: getRestaurantStats_def)
next
  show "\<exists>a. getRestaurantStats st t
               = Some \<lparr>average = a,
                       count = length (filter (\<lambda>r. restaurantTitle r = t) (reviews st))\<rparr>"
    if "filter (\<lambda>r. restaurantTitle r = t) (reviews st) \<noteq> []"
    using that by (simp add: getRestaurantStats_def Let_def)
next
  define matching where "matching = filter (\<lambda>r. restaurantTitle r = t) (reviews st)"
  assume "filter (\<lambda>r. restaurantTitle r = t) (reviews st) \<noteq> []
        \<and> list_all (\<lambda>r. star_rating (rating r)) (filter (\<lambda>r. restaurantTitle r = t) (reviews st))
        \<and> length (filter (\<lambda>r. restaurantTitle r = t) (reviews st)) < 2 ^ 32"
  then have ne: "matching \<noteq> []" and stars: "list_all (\<lambda>r. star_rating (rating r)) matching"
    and len32: "length matching < 2 ^ 32"
    by (simp_all add: matching_def)
  from len32 have len: "length matching \<le> 2 ^ 46"
    by simp
  have "0 + 5 * length matching < 2 ^ 53"
    using len by simp
  from sum_star_ratings_exact [OF stars this] obtain s :: nat where
    fold: "foldl (\<lambda>acc r. js_add acc (rating r)) 0 matching = sum_list (map rating matching)"
    and s: "sum_list (map rating matching) = of_nat s" "length matching \<le> s"
           "s \<le> 5 * length matching"
    by auto
  have "0 < length matching"
    using ne by simp
  from toFixed1_of_mean [OF this len s(2,3)] obtain n :: nat where
    n: "toFixed1 (js_div (of_nat s) (of_nat (length matching)))
          = Some (decimal (n div 10) @ ''.'' @ [digit_char (n mod 10)])"
       "\<bar>of_nat n / 10 - of_nat s / of_nat (length matching)\<bar> \<le> (1 / 20 :: rat)"
    by blast
  have "getRestaurantStats st t
          = Some \<lparr>average = Some (decimal (n div 10) @ ''.'' @ [digit_char (n mod 10)]),
                  count = length matching\<rparr>"
    using ne n(1) by (simp add: getRestaurantStats_def Let_def matching_def [symmetric] fold s(1))
  then show "\<exists>n::nat. getRestaurantStats st t
               = Some \<lparr>average = Some (decimal (n div 10) @ ''.'' @ [digit_char (n mod 10)]),
                       count = length (filter (\<lambda>r. restaurantTitle r = t) (reviews st))\<rparr>
             \<and> \<bar>of_nat n / 10
                 - sum_list (map rating (filter (\<lambda>r. restaurantTitle r = t) (reviews st)))
                   / of_nat (length (filter (\<lambda>r. restaurantTitle r = t) (reviews st)))\<bar>
               \<le> 1 / 20"
    using n(2) unfolding matching_def [symmetric] s(1) by blast
qed

theorem getRestaurantStats_aggregate_witness:
  "getRestaurantStats (initial_state\<lparr>reviews := example_reviews\<rparr>) ''C'' = None
   \<and> (\<exists>n::nat. getRestaurantStats (initial_state\<lparr>reviews := example_reviews\<rparr>) ''A''
                 = Some \<lparr>average = Some (decimal (n div 10) @ ''.'' @ [digit_char (n mod 10)]),
                         count = 2\<rparr>
               \<and> \<bar>of_nat n / 10 - 9 / 2\<bar> \<le> (1 / 20 :: rat))
   \<and> getRestaurantStats (initial_state\<lparr>reviews := example_reviews\<rparr>) ''A''
       = Some \<lparr>average = Some ''4.5'', count = 2\<rparr>"
proof -
  let ?st = "initial_state\<lparr>reviews := example_reviews\<rparr>"
  have none: "filter (\<lambda>r. restaurantTitle r = ''C'') (reviews ?st) = []"
    by (simp add: example_reviews_def)
  have two: "filter (\<lambda>r. restaurantTitle r = ''A'') (reviews ?st) = take 2 example_reviews"
    by (simp add: example_reviews_def)
  have hyp: "filter (\<lambda>r. restaurantTitle r = ''A'') (reviews ?st) \<noteq> []
        \<and> list_all (\<lambda>r. star_rating (rating r))
             (filter (\<lambda>r. restaurantTitle r = ''A'') (reviews ?st))
        \<and> length (filter (\<lambda>r. restaurantTitle r = ''A'') (reviews ?st)) < 2 ^ 32"
    unfolding two by (simp add: example_reviews_def star_rating_def)
  have mean: "sum_list (map rating (filter (\<lambda>r. restaurantTitle r = ''A'') (reviews ?st))) = 9"
             "length (filter (\<lambda>r. restaurantTitle r = ''A'') (reviews ?st)) = 2"
    unfolding two by (simp_all add: example_reviews_def)
  have "getRestaurantStats ?st ''C'' = None"
    using getRestaurantStats_aggregate [where t = "''C''" and st = ?st, THEN conjunct1] none
    by (rule mp)
  moreover have "\<exists>n::nat. getRestaurantStats ?st ''A''
                 = Some \<lparr>average = Some (decimal (n div 10) @ ''.'' @ [digit_char (n mod 10)]),
                         count = 2\<rparr>
               \<and> \<bar>of_nat n / 10 - 9 / 2\<bar> \<le> (1 / 20 :: rat)"
    using getRestaurantStats_aggregate [where t = "''A''" and st = ?st, THEN conjunct2,
            THEN conjunct2, THEN mp, OF hyp]
    unfolding mean by simp
  moreover have "getRestaurantStats ?st ''A'' = Some \<lparr>average = Some ''4.5'', count = 2\<rparr>"
    by code_simp
  ultimately show ?thesis
    by (simp only: simp_thms)
qed

end
